theory Spec2Isabelle
  imports Main "HOL-Library.Char_ord"
begin

section \<open>The image-partition action of debos (image\_partition\_action.go)\<close>

text \<open>
  The action partitions, formats and mounts a block device and derives an fstab and a
  kernel root parameter from the result. The Go source works on three structs, on a shared
  build context and on the outside world (external programs, system calls). The embedding
  below keeps the structs as records, turns every loop into a recursive function, returns
  Go's \<open>error\<close> results as \<open>error option\<close> (\<open>None\<close> is \<open>nil\<close>), and writes
  every run-time panic as a value.
\<close>

subsection \<open>Data model\<close>

record Partition =
  number :: int
  Name :: string
  Start :: string
  End :: string
  FS :: string
  Flags :: "string list"
  FSUUID :: string

text \<open>
  \<open>number\<close> is a Go \<open>int\<close> (64 bits). It only ever holds a position in the partition
  slice plus one, and the length of a slice is itself an \<open>int\<close>, so the counter of
  \<open>Verify\<close> cannot wrap before the loop ends; it is modelled as an unbounded integer.
  \<open>Flags\<close> is a slice; the source guards its loop with \<open>p.Flags != nil\<close>, and ranging
  over a nil slice runs no iteration, so nil and the empty slice are both \<open>[]\<close>.

  The field \<open>part\<close> of a mountpoint is a pointer to an element of the action's partition
  slice. It is modelled as the index of that element: \<open>None\<close> is the nil pointer, and
  reading through \<open>Some k\<close> reads the \<open>k\<close>-th partition as it is at that moment, which
  is what the shared backing array of the slice gives in Go.
\<close>

record Mountpoint =
  Mountpoint :: string
  Partition :: string
  Options :: "string list"
  part :: "nat option"

record ImagePartitionAction =
  ImageName :: string
  ImageSize :: string
  PartitionType :: string
  Partitions :: "Partition list"
  Mountpoints :: "Mountpoint list"
  size' :: int
  usingLoop :: bool

text \<open>The fields of \<open>DebosContext\<close> that this file reads or writes. \<open>imageFSTab\<close> is a
  byte buffer; its content is kept as a string.\<close>

record DebosContext =
  image' :: string
  imageMntDir :: string
  scratchdir :: string
  imageFSTab :: string
  imageKernelRoot :: string

datatype error = Error string | Panic string

definition nil_dereference :: error where
  "nil_dereference = Panic ''invalid memory address or nil pointer dereference''"

definition index_out_of_range :: error where
  "index_out_of_range = Panic ''index out of range [-1]''"

text \<open>Reading through a \<open>*Partition\<close>. An index past the end of the slice stands for no
  pointer that the program can hold; it is treated like nil.\<close>

definition deref :: "Partition list \<Rightarrow> nat option \<Rightarrow> Partition option" where
  "deref ps ptr =
     (case ptr of
        None \<Rightarrow> None
      | Some k \<Rightarrow> if k < length ps then Some (ps ! k) else None)"

subsection \<open>The outside world\<close>

text \<open>
  Every call that leaves the process is recorded in a trace, and its outcome is given by
  the environment as a function of the calls made so far and of the call itself. The
  environment also carries the three library functions whose code is not part of the
  repository: \<open>path.Join\<close>, \<open>strings.TrimSpace\<close> and \<open>units.FromHumanSize\<close>.
  Logging (\<open>LogStart\<close>) is not recorded.
\<close>

datatype call =
    Command_Run string "string list"
  | Exec_Output "string list"
  | Exec_Run "string list"
  | OpenFile string
  | Truncate string int
  | Close string
  | MkdirAll string nat
  | Mount string string string
  | Unmount string
  | CreateImage string int

datatype outcome = Success string | Failure string

record env =
  respond :: "call list \<Rightarrow> call \<Rightarrow> outcome"
  path_Join :: "string \<Rightarrow> string \<Rightarrow> string"
  TrimSpace :: "string \<Rightarrow> string"
  FromHumanSize :: "string \<Rightarrow> string + int"

definition exec :: "env \<Rightarrow> call \<Rightarrow> call list \<Rightarrow> outcome \<times> call list" where
  "exec E c t = (respond E t c, t @ [c])"

subsection \<open>Formatting helpers of the Go library\<close>

text \<open>\<open>fmt.Sprintf("%d", n)\<close>: the decimal digits of \<open>n\<close>, with a minus sign when negative.\<close>

fun string_of_nat :: "nat \<Rightarrow> string" where
  "string_of_nat n =
     (if n < 10 then [''0123456789'' ! n]
      else string_of_nat (n div 10) @ [''0123456789'' ! (n mod 10)])"

declare string_of_nat.simps [simp del]

definition Sprintf_d :: "int \<Rightarrow> string" where
  "Sprintf_d n = (if n < 0 then ''-'' @ string_of_nat (nat (- n)) else string_of_nat (nat n))"

text \<open>\<open>strings.Join(elems, sep)\<close>.\<close>

fun strings_Join :: "string list \<Rightarrow> string \<Rightarrow> string" where
  "strings_Join [] sep = []"
| "strings_Join [x] sep = x"
| "strings_Join (x # y # ys) sep = x @ sep @ strings_Join (y # ys) sep"

subsection \<open>generateFSTab\<close>

definition fstab_line :: "Partition \<Rightarrow> Mountpoint \<Rightarrow> string list \<Rightarrow> string" where
  "fstab_line p m options =
     ''UUID='' @ FSUUID p @ [CHR 0x09] @ Mountpoint m @ [CHR 0x09] @ FS p @ [CHR 0x09]
       @ strings_Join options '','' @ [CHR 0x09] @ ''0'' @ [CHR 0x09] @ ''0'' @ [CHR 0x0A]"

fun generateFSTab_loop ::
  "Partition list \<Rightarrow> Mountpoint list \<Rightarrow> DebosContext \<Rightarrow> error option \<times> DebosContext" where
  "generateFSTab_loop ps [] ctx = (None, ctx)"
| "generateFSTab_loop ps (m # ms) ctx =
     (let options = ''defaults'' # Options m in
      case deref ps (part m) of
        None \<Rightarrow> (Some nil_dereference, ctx)
      | Some p \<Rightarrow>
          if FSUUID p = []
          then (Some (Error (''Missing fs UUID for partition '' @ Name p @ ''!?!'')), ctx)
          else generateFSTab_loop ps ms
                 (ctx\<lparr>imageFSTab := imageFSTab ctx @ fstab_line p m options\<rparr>))"

definition generateFSTab ::
  "ImagePartitionAction \<Rightarrow> DebosContext \<Rightarrow> error option \<times> DebosContext" where
  "generateFSTab i ctx =
     generateFSTab_loop (Partitions i) (Mountpoints i) (ctx\<lparr>imageFSTab := []\<rparr>)"

subsection \<open>generateKernelRoot\<close>

fun generateKernelRoot_loop ::
  "Partition list \<Rightarrow> Mountpoint list \<Rightarrow> DebosContext \<Rightarrow> error option \<times> DebosContext" where
  "generateKernelRoot_loop ps [] ctx = (None, ctx)"
| "generateKernelRoot_loop ps (m # ms) ctx =
     (if Mountpoint m = ''/''
      then (case deref ps (part m) of
              None \<Rightarrow> (Some nil_dereference, ctx)
            | Some p \<Rightarrow>
                if FSUUID p = []
                then (Some (Error ''No fs UUID for root partition !?!''), ctx)
                else (None, ctx\<lparr>imageKernelRoot := ''root=UUID='' @ FSUUID p\<rparr>))
      else generateKernelRoot_loop ps ms ctx)"

definition generateKernelRoot ::
  "ImagePartitionAction \<Rightarrow> DebosContext \<Rightarrow> error option \<times> DebosContext" where
  "generateKernelRoot i ctx = generateKernelRoot_loop (Partitions i) (Mountpoints i) ctx"

subsection \<open>getPartitionDevice\<close>

text \<open>The source reads the byte at index \<open>len(context.image)-1\<close>; on the empty string
  that index is \<open>-1\<close> and the read panics.\<close>

definition getPartitionDevice :: "int \<Rightarrow> DebosContext \<Rightarrow> error + string" where
  "getPartitionDevice num ctx =
     (if length (image' ctx) = 0 then Inl index_out_of_range
      else
        let last_byte = image' ctx ! (length (image' ctx) - 1) in
        if CHR ''0'' \<le> last_byte \<and> last_byte \<le> CHR ''9''
        then Inr (image' ctx @ ''p'' @ Sprintf_d num)
        else Inr (image' ctx @ Sprintf_d num))"

subsection \<open>Methods with a value receiver\<close>

text \<open>
  \<open>PreMachine\<close>, \<open>PreNoMachine\<close>, \<open>formatPartition\<close>, \<open>Run\<close> and \<open>Cleanup\<close> are
  declared on \<open>ImagePartitionAction\<close>, not on a pointer to it: each call works on a copy
  of the struct. The two slices of the copy share their backing arrays with the caller's
  slices, so a write to an element is seen by the caller; a write to a field of the copy
  is not. \<open>value_receiver caller callee\<close> is the caller's struct after a call that
  left its copy as \<open>callee\<close>.
\<close>

definition value_receiver ::
  "ImagePartitionAction \<Rightarrow> ImagePartitionAction \<Rightarrow> ImagePartitionAction" where
  "value_receiver caller callee =
     caller\<lparr>Partitions := Partitions callee, Mountpoints := Mountpoints callee\<rparr>"

subsection \<open>PreMachine\<close>

definition PreMachine ::
  "env \<Rightarrow> ImagePartitionAction \<Rightarrow> DebosContext \<Rightarrow> string list \<Rightarrow> call list
     \<Rightarrow> error option \<times> DebosContext \<times> string list \<times> call list" where
  "PreMachine E i ctx args t =
     (case exec E (CreateImage (ImageName i) (size' i)) t of
        (Failure e, t1) \<Rightarrow> (Some (Error e), ctx, args, t1)
      | (Success _, t1) \<Rightarrow>
          (None, ctx\<lparr>image' := ''/dev/vda''\<rparr>, args @ [''--internal-image'', ''/dev/vda''], t1))"

subsection \<open>formatPartition\<close>

text \<open>The result of the mkfs command is not looked at by the source; only the outcome of
  \<open>blkid\<close> decides what is returned. The partition is passed by pointer, the updated
  partition is returned.\<close>

definition formatPartition ::
  "env \<Rightarrow> Partition \<Rightarrow> DebosContext \<Rightarrow> call list \<Rightarrow> (error + Partition) \<times> call list" where
  "formatPartition E p ctx t =
     (let label = ''Formatting partition '' @ Sprintf_d (number p) in
      case getPartitionDevice (number p) ctx of
        Inl e \<Rightarrow> (Inl e, t)
      | Inr path \<Rightarrow>
          (let cmdline =
                 (if FS p = ''fat32'' then [''mkfs.vfat'', ''-n'', Name p]
                  else [''mkfs.'' @ FS p, ''-L'', Name p]) @ [path];
               t1 = snd (exec E (Command_Run label cmdline) t)
           in
           (case exec E (Exec_Output
                   [''blkid'', ''-o'', ''value'', ''-s'', ''UUID'', ''-p'', ''-c'', ''none'', path]) t1 of
              (Failure e, t2) \<Rightarrow> (Inl (Error (''Failed to get uuid: '' @ e)), t2)
            | (Success uuid, t2) \<Rightarrow> (Inr (p\<lparr>FSUUID := TrimSpace E uuid\<rparr>), t2))))"

subsection \<open>PreNoMachine\<close>

text \<open>\<open>PreNoMachine_body\<close> is the method's code, returning its copy of the receiver;
  \<open>PreNoMachine\<close> is the call as the caller sees it.\<close>

definition PreNoMachine_body ::
  "env \<Rightarrow> ImagePartitionAction \<Rightarrow> DebosContext \<Rightarrow> call list
     \<Rightarrow> error option \<times> ImagePartitionAction \<times> DebosContext \<times> call list" where
  "PreNoMachine_body E i ctx t =
     (case exec E (OpenFile (ImageName i)) t of
        (Failure e, t1) \<Rightarrow> (Some (Error (''Couldn't open image file: '' @ e)), i, ctx, t1)
      | (Success _, t1) \<Rightarrow>
          (case exec E (Truncate (ImageName i) (size' i)) t1 of
             (Failure e, t2) \<Rightarrow>
               (Some (Error (''Couldn't resize image file: '' @ e)), i, ctx, t2)
           | (Success _, t2) \<Rightarrow>
               (let t3 = snd (exec E (Close (ImageName i)) t2) in
                case exec E (Exec_Output [''losetup'', ''-f'', ''--show'', ImageName i]) t3 of
                  (Failure e, t4) \<Rightarrow> (Some (Error ''Failed to setup loop device''), i, ctx, t4)
                | (Success loop, t4) \<Rightarrow>
                    (None, i\<lparr>usingLoop := True\<rparr>, ctx\<lparr>image' := TrimSpace E loop\<rparr>, t4))))"

definition PreNoMachine ::
  "env \<Rightarrow> ImagePartitionAction \<Rightarrow> DebosContext \<Rightarrow> call list
     \<Rightarrow> error option \<times> ImagePartitionAction \<times> DebosContext \<times> call list" where
  "PreNoMachine E i ctx t =
     (case PreNoMachine_body E i ctx t of
        (r, i_copy, ctx', t') \<Rightarrow> (r, value_receiver i i_copy, ctx', t'))"

subsection \<open>Run\<close>

fun Run_flags ::
  "env \<Rightarrow> DebosContext \<Rightarrow> Partition \<Rightarrow> string list \<Rightarrow> call list \<Rightarrow> error option \<times> call list" where
  "Run_flags E ctx p [] t = (None, t)"
| "Run_flags E ctx p (flag # flags) t =
     (case exec E (Command_Run ''parted''
             [''parted'', ''-s'', image' ctx, ''set'', Sprintf_d (number p), flag, ''on'']) t of
        (Failure e, t1) \<Rightarrow> (Some (Error e), t1)
      | (Success _, t1) \<Rightarrow> Run_flags E ctx p flags t1)"

text \<open>The loop over the partitions. The argument list is the part of the slice not yet
  visited; the result is that part with the UUIDs written so far, also when the loop
  returns early.\<close>

fun Run_partitions ::
  "env \<Rightarrow> string \<Rightarrow> DebosContext \<Rightarrow> Partition list \<Rightarrow> call list
     \<Rightarrow> error option \<times> Partition list \<times> call list" where
  "Run_partitions E ptype ctx [] t = (None, [], t)"
| "Run_partitions E ptype ctx (p # ps) t =
     (let name = (if ptype = ''gpt'' then Name p else ''primary'') in
      case exec E (Command_Run ''parted''
             [''parted'', ''-a'', ''none'', ''-s'', image' ctx, ''mkpart'',
              name, FS p, Start p, End p]) t of
        (Failure e, t1) \<Rightarrow> (Some (Error e), p # ps, t1)
      | (Success _, t1) \<Rightarrow>
          (case Run_flags E ctx p (Flags p) t1 of
             (Some e, t2) \<Rightarrow> (Some e, p # ps, t2)
           | (None, t2) \<Rightarrow>
               (case formatPartition E p ctx t2 of
                  (Inl e, t3) \<Rightarrow> (Some e, p # ps, t3)
                | (Inr p', t3) \<Rightarrow>
                    (case Run_partitions E ptype ctx ps t3 of
                       (r, ps', t4) \<Rightarrow> (r, p' # ps', t4)))))"

fun Run_mounts ::
  "env \<Rightarrow> Partition list \<Rightarrow> DebosContext \<Rightarrow> Mountpoint list \<Rightarrow> call list
     \<Rightarrow> error option \<times> call list" where
  "Run_mounts E ps ctx [] t = (None, t)"
| "Run_mounts E ps ctx (m # ms) t =
     (case deref ps (part m) of
        None \<Rightarrow> (Some nil_dereference, t)
      | Some p \<Rightarrow>
          (case getPartitionDevice (number p) ctx of
             Inl e \<Rightarrow> (Some e, t)
           | Inr dev \<Rightarrow>
               (let mntpath = path_Join E (imageMntDir ctx) (Mountpoint m);
                    t1 = snd (exec E (MkdirAll mntpath 755) t);
                    fs = (if FS p = ''fat32'' then ''vfat'' else FS p)
                in
                case exec E (Mount dev mntpath fs) t1 of
                  (Failure e, t2) \<Rightarrow> (Some (Error (Name p @ '' mount failed: '' @ e)), t2)
                | (Success _, t2) \<Rightarrow> Run_mounts E ps ctx ms t2)))"

definition Run_body ::
  "env \<Rightarrow> ImagePartitionAction \<Rightarrow> DebosContext \<Rightarrow> call list
     \<Rightarrow> error option \<times> ImagePartitionAction \<times> DebosContext \<times> call list" where
  "Run_body E i ctx t =
     (case exec E (Command_Run ''parted''
             [''parted'', ''-s'', image' ctx, ''mklabel'', PartitionType i]) t of
        (Failure e, t1) \<Rightarrow> (Some (Error e), i, ctx, t1)
      | (Success _, t1) \<Rightarrow>
          (case Run_partitions E (PartitionType i) ctx (Partitions i) t1 of
             (Some e, ps', t2) \<Rightarrow> (Some e, i\<lparr>Partitions := ps'\<rparr>, ctx, t2)
           | (None, ps', t2) \<Rightarrow>
               (let i2 = i\<lparr>Partitions := ps'\<rparr>;
                    ctx2 = ctx\<lparr>imageMntDir := path_Join E (scratchdir ctx) ''mnt''\<rparr>;
                    t3 = snd (exec E (MkdirAll (imageMntDir ctx2) 755) t2)
                in
                case Run_mounts E (Partitions i2) ctx2 (Mountpoints i2) t3 of
                  (Some e, t4) \<Rightarrow> (Some e, i2, ctx2, t4)
                | (None, t4) \<Rightarrow>
                    (case generateFSTab i2 ctx2 of
                       (Some e, ctx3) \<Rightarrow> (Some e, i2, ctx3, t4)
                     | (None, ctx3) \<Rightarrow>
                         (case generateKernelRoot i2 ctx3 of
                            (r, ctx4) \<Rightarrow> (r, i2, ctx4, t4))))))"

definition Run ::
  "env \<Rightarrow> ImagePartitionAction \<Rightarrow> DebosContext \<Rightarrow> call list
     \<Rightarrow> error option \<times> ImagePartitionAction \<times> DebosContext \<times> call list" where
  "Run E i ctx t =
     (case Run_body E i ctx t of
        (r, i_copy, ctx', t') \<Rightarrow> (r, value_receiver i i_copy, ctx', t'))"

subsection \<open>Cleanup\<close>

text \<open>The source counts \<open>idx\<close> down from \<open>len - 1\<close> to \<open>0\<close>; the counter of the model is
  \<open>idx + 1\<close>, so that the loop ends at \<open>0\<close>. The result of \<open>syscall.Unmount\<close> and the
  result of \<open>losetup -d\<close> are discarded.\<close>

fun Cleanup_loop ::
  "env \<Rightarrow> DebosContext \<Rightarrow> Mountpoint list \<Rightarrow> nat \<Rightarrow> call list \<Rightarrow> call list" where
  "Cleanup_loop E ctx ms 0 t = t"
| "Cleanup_loop E ctx ms (Suc idx) t =
     (let m = ms ! idx;
          mntpath = path_Join E (imageMntDir ctx) (Mountpoint m);
          t1 = snd (exec E (Unmount mntpath) t)
      in Cleanup_loop E ctx ms idx t1)"

definition Cleanup ::
  "env \<Rightarrow> ImagePartitionAction \<Rightarrow> DebosContext \<Rightarrow> call list \<Rightarrow> error option \<times> call list" where
  "Cleanup E i ctx t =
     (let t1 = Cleanup_loop E ctx (Mountpoints i) (length (Mountpoints i)) t;
          t2 = (if usingLoop i then snd (exec E (Exec_Run [''losetup'', ''-d'', image' ctx]) t1)
                else t1)
      in (None, t2))"

subsection \<open>Verify\<close>

fun Verify_partitions :: "int \<Rightarrow> Partition list \<Rightarrow> error option \<times> Partition list" where
  "Verify_partitions num [] = (None, [])"
| "Verify_partitions num (p # ps) =
     (let p' = p\<lparr>number := num\<rparr> in
      if Name p' = [] then (Some (Error ''Partition without a name''), p' # ps)
      else if Start p' = []
      then (Some (Error (''Partition '' @ Name p' @ '' missing start'')), p' # ps)
      else if End p' = []
      then (Some (Error (''Partition '' @ Name p' @ '' missing end'')), p' # ps)
      else if FS p' = []
      then (Some (Error (''Partition '' @ Name p' @ '' missing fs type'')), p' # ps)
      else (case Verify_partitions (num + 1) ps of (r, ps') \<Rightarrow> (r, p' # ps')))"

text \<open>The inner loop of the mountpoint pass: the index of the first partition, from
  position \<open>pidx\<close> on, whose name equals the reference.\<close>

fun find_partition :: "string \<Rightarrow> Partition list \<Rightarrow> nat \<Rightarrow> nat option" where
  "find_partition ref [] pidx = None"
| "find_partition ref (p # ps) pidx =
     (if ref = Name p then Some pidx else find_partition ref ps (Suc pidx))"

fun Verify_mountpoints ::
  "Partition list \<Rightarrow> Mountpoint list \<Rightarrow> error option \<times> Mountpoint list" where
  "Verify_mountpoints ps [] = (None, [])"
| "Verify_mountpoints ps (m # ms) =
     (let m' = (case find_partition (Partition m) ps 0 of
                  Some pidx \<Rightarrow> m\<lparr>part := Some pidx\<rparr>
                | None \<Rightarrow> m)
      in
      if part m' = None
      then (Some (Error (''Couldn't fount partition for '' @ Mountpoint m')), m' # ms)
      else (case Verify_mountpoints ps ms of (r, ms') \<Rightarrow> (r, m' # ms')))"

definition Verify ::
  "env \<Rightarrow> ImagePartitionAction \<Rightarrow> error option \<times> ImagePartitionAction" where
  "Verify E i =
     (case Verify_partitions 1 (Partitions i) of
        (Some e, ps') \<Rightarrow> (Some e, i\<lparr>Partitions := ps'\<rparr>)
      | (None, ps') \<Rightarrow>
          (case Verify_mountpoints ps' (Mountpoints i) of
             (Some e, ms') \<Rightarrow> (Some e, i\<lparr>Partitions := ps', Mountpoints := ms'\<rparr>)
           | (None, ms') \<Rightarrow>
               (let i2 = i\<lparr>Partitions := ps', Mountpoints := ms'\<rparr> in
                case FromHumanSize E (ImageSize i2) of
                  Inl err \<Rightarrow> (Some (Error (''Failed to parse image size: '' @ ImageSize i2)), i2)
                | Inr sz \<Rightarrow> (None, i2\<lparr>size' := sz\<rparr>))))"

subsection \<open>The lifecycle driver\<close>

text \<open>
  Modelled from the spec: the engine that calls the lifecycle methods is not part of
  this source file. The spec gives its contract: it "invokes the above in the fixed sequence
  Verify \<open>\<rightarrow>\<close> (PreMachine | PreNoMachine) \<open>\<rightarrow>\<close> Run \<open>\<rightarrow>\<close> Cleanup"; configuration errors
  "abort before any resource is touched"; provisioning errors "abort before any
  partitioning occurs"; and it invokes "cleanup on any exit path once provisioning has
  succeeded". The result of the build is the first error met.
\<close>

datatype provisioning = InMachine | OnHost

definition provision ::
  "env \<Rightarrow> provisioning \<Rightarrow> ImagePartitionAction \<Rightarrow> DebosContext \<Rightarrow> string list \<Rightarrow> call list
     \<Rightarrow> error option \<times> ImagePartitionAction \<times> DebosContext \<times> call list" where
  "provision E how i ctx args t =
     (case how of
        InMachine \<Rightarrow> (case PreMachine E i ctx args t of (r, ctx', args', t') \<Rightarrow> (r, i, ctx', t'))
      | OnHost \<Rightarrow> PreNoMachine E i ctx t)"

definition lifecycle ::
  "env \<Rightarrow> provisioning \<Rightarrow> ImagePartitionAction \<Rightarrow> DebosContext \<Rightarrow> string list \<Rightarrow> call list
     \<Rightarrow> error option \<times> ImagePartitionAction \<times> DebosContext \<times> call list" where
  "lifecycle E how i ctx args t =
     (case Verify E i of
        (Some e, i1) \<Rightarrow> (Some e, i1, ctx, t)
      | (None, i1) \<Rightarrow>
          (case provision E how i1 ctx args t of
             (Some e, i2, ctx2, t2) \<Rightarrow> (Some e, i2, ctx2, t2)
           | (None, i2, ctx2, t2) \<Rightarrow>
               (case Run E i2 ctx2 t2 of
                  (r, i3, ctx3, t3) \<Rightarrow> (r, i3, ctx3, snd (Cleanup E i3 ctx3 t3)))))"

subsection \<open>Notions used in the statements\<close>

text \<open>Reading the digits of \<open>string_of_nat\<close> back.\<close>

definition nat_of_string :: "string \<Rightarrow> nat" where
  "nat_of_string s = foldl (\<lambda>acc c. 10 * acc + (of_char c - 48)) 0 s"

text \<open>The fstab text of a resolved model: one line for each mountpoint, in order.\<close>

definition fstab_text :: "Partition list \<Rightarrow> Mountpoint list \<Rightarrow> string" where
  "fstab_text ps ms =
     concat (map (\<lambda>m. case deref ps (part m) of
                         Some p \<Rightarrow> fstab_line p m (''defaults'' # Options m)
                       | None \<Rightarrow> []) ms)"

text \<open>A mountpoint is bound when its pointer leads to a partition; its UUID is known when
  that partition has a non-empty UUID.\<close>

definition bound :: "Partition list \<Rightarrow> Mountpoint \<Rightarrow> bool" where
  "bound ps m = (deref ps (part m) \<noteq> None)"

definition uuid_known :: "Partition list \<Rightarrow> Mountpoint \<Rightarrow> bool" where
  "uuid_known ps m = (case deref ps (part m) of Some p \<Rightarrow> FSUUID p \<noteq> [] | None \<Rightarrow> False)"

text \<open>The calls that partition, format or mount.\<close>

fun construction_step :: "call \<Rightarrow> bool" where
  "construction_step (Command_Run label argv) = True"
| "construction_step (Exec_Output argv) = (argv \<noteq> [] \<and> hd argv = ''blkid'')"
| "construction_step (Mount dev mntpath fs) = True"
| "construction_step c = False"

fun is_mkfs :: "call \<Rightarrow> bool" where
  "is_mkfs (Command_Run label (prog # argv)) = (take 5 prog = ''mkfs.'')"
| "is_mkfs c = False"

fun is_unmount :: "call \<Rightarrow> bool" where
  "is_unmount (Unmount mntpath) = True"
| "is_unmount c = False"

subsection \<open>A concrete environment and a concrete recipe\<close>

text \<open>
  The statements below hold for every environment. To run the model on an input, the
  environment \<open>demo_env fails\<close> lets every call in \<open>fails\<close> fail and every other call
  succeed; \<open>blkid\<close> prints a UUID and \<open>losetup\<close> prints a loop device, each followed by
  a newline. Its library functions are stand-ins: \<open>demo_Join\<close> only shows the two
  arguments of \<open>path.Join\<close>, \<open>ascii_TrimSpace\<close> trims the ASCII white space, and
  \<open>demo_FromHumanSize\<close> knows one size, read with decimal units as the library does.
\<close>

definition ascii_space :: "char \<Rightarrow> bool" where
  "ascii_space c = (c \<in> set [CHR 0x09, CHR 0x0A, CHR 0x0B, CHR 0x0C, CHR 0x0D, CHR '' ''])"

definition ascii_TrimSpace :: "string \<Rightarrow> string" where
  "ascii_TrimSpace s = rev (dropWhile ascii_space (rev (dropWhile ascii_space s)))"

definition demo_Join :: "string \<Rightarrow> string \<Rightarrow> string" where
  "demo_Join dir elem = ''Join('' @ dir @ '','' @ elem @ '')''"

definition demo_FromHumanSize :: "string \<Rightarrow> string + int" where
  "demo_FromHumanSize s = (if s = ''1GiB'' then Inr 1000000000 else Inl ''invalid size'')"

fun demo_stdout :: "call \<Rightarrow> string" where
  "demo_stdout (Exec_Output (prog # argv)) =
     (if prog = ''blkid'' then ''ABCD-1234'' @ [CHR 0x0A]
      else if prog = ''losetup'' then ''/dev/loop0'' @ [CHR 0x0A]
      else [])"
| "demo_stdout c = []"

definition demo_env :: "(call \<Rightarrow> bool) \<Rightarrow> env" where
  "demo_env fails =
     \<lparr>respond = (\<lambda>t c. if fails c then Failure ''exit status 1'' else Success (demo_stdout c)),
      path_Join = demo_Join,
      TrimSpace = ascii_TrimSpace,
      FromHumanSize = demo_FromHumanSize\<rparr>"

definition demo_partition :: "string \<Rightarrow> string \<Rightarrow> string \<Rightarrow> string \<Rightarrow> string list \<Rightarrow> Partition" where
  "demo_partition name start end fs flags =
     \<lparr>number = 0, Name = name, Start = start, End = end, FS = fs, Flags = flags, FSUUID = []\<rparr>"

definition demo_mountpoint :: "string \<Rightarrow> string \<Rightarrow> Mountpoint" where
  "demo_mountpoint target ref =
     \<lparr>Mountpoint = target, Partition = ref, Options = [], part = None\<rparr>"

definition demo_action :: ImagePartitionAction where
  "demo_action =
     \<lparr>ImageName = ''disk.img'', ImageSize = ''1GiB'', PartitionType = ''gpt'',
      Partitions = [demo_partition ''efi'' ''0%'' ''10%'' ''fat32'' [''boot''],
                    demo_partition ''root'' ''10%'' ''100%'' ''ext4'' []],
      Mountpoints = [demo_mountpoint ''/'' ''root'', demo_mountpoint ''/boot/efi'' ''efi''],
      size' = 0, usingLoop = False\<rparr>"

definition demo_context :: DebosContext where
  "demo_context =
     \<lparr>image' = [], imageMntDir = [], scratchdir = ''/scratch'', imageFSTab = [],
      imageKernelRoot = []\<rparr>"

text \<open>The recipe after validation, and after formatting (both partitions carry a UUID).\<close>

definition verified_action :: ImagePartitionAction where
  "verified_action = snd (Verify (demo_env (\<lambda>c. False)) demo_action)"

definition formatted_action :: ImagePartitionAction where
  "formatted_action =
     verified_action\<lparr>Partitions :=
       map (\<lambda>p. p\<lparr>FSUUID := ''ABCD-1234''\<rparr>) (Partitions verified_action)\<rparr>"

text \<open>A recipe whose second mountpoint refers to a partition that is not declared.\<close>

definition dangling_action :: ImagePartitionAction where
  "dangling_action =
     demo_action\<lparr>Mountpoints := [demo_mountpoint ''/'' ''root'', demo_mountpoint ''/home'' ''home'']\<rparr>"

text \<open>A validated recipe with two mountpoints for the root path: the first is bound to a
  formatted partition, the second to a partition without UUID.\<close>

definition two_roots_action :: ImagePartitionAction where
  "two_roots_action =
     demo_action\<lparr>
       Partitions := [(demo_partition ''a'' ''0%'' ''50%'' ''ext4'' [])\<lparr>number := 1, FSUUID := ''ABCD-1234''\<rparr>,
                      (demo_partition ''b'' ''50%'' ''100%'' ''ext4'' [])\<lparr>number := 2\<rparr>],
       Mountpoints := [(demo_mountpoint ''/'' ''a'')\<lparr>part := Some 0\<rparr>,
                       (demo_mountpoint ''/'' ''b'')\<lparr>part := Some 1\<rparr>]\<rparr>"

text \<open>A formatted recipe that mounts nothing at the root path, and a context that already
  holds a kernel root parameter.\<close>

definition rootless_action :: ImagePartitionAction where
  "rootless_action =
     formatted_action\<lparr>Mountpoints := [(demo_mountpoint ''/boot/efi'' ''efi'')\<lparr>part := Some 0\<rparr>]\<rparr>"

definition used_context :: DebosContext where
  "used_context = demo_context\<lparr>imageKernelRoot := ''root=UUID=0000-0001''\<rparr>"

text \<open>A build on the host, in the order of the lifecycle: the loop device is set up, the
  image is built, and the action is cleaned up, each step on the action, the context and the
  trace that the step before has left.\<close>

definition host_prepared ::
  "error option \<times> ImagePartitionAction \<times> DebosContext \<times> call list" where
  "host_prepared = PreNoMachine (demo_env (\<lambda>c. False)) verified_action demo_context []"

definition host_built ::
  "error option \<times> ImagePartitionAction \<times> DebosContext \<times> call list" where
  "host_built = (case host_prepared of (r, i, ctx, t) \<Rightarrow> Run (demo_env (\<lambda>c. False)) i ctx t)"

definition host_cleaned :: "error option \<times> call list" where
  "host_cleaned = (case host_built of (r, i, ctx, t) \<Rightarrow> Cleanup (demo_env (\<lambda>c. False)) i ctx t)"

text \<open>A context whose backing device is the virtual disk, and the two commands that format
  the first partition of the recipe on it.\<close>

definition vda_context :: DebosContext where
  "vda_context = demo_context\<lparr>image' := ''/dev/vda''\<rparr>"

definition mkfs_efi :: call where
  "mkfs_efi = Command_Run ''Formatting partition 1'' [''mkfs.vfat'', ''-n'', ''efi'', ''/dev/vda1'']"

definition blkid_efi :: call where
  "blkid_efi =
     Exec_Output [''blkid'', ''-o'', ''value'', ''-s'', ''UUID'', ''-p'', ''-c'', ''none'', ''/dev/vda1'']"

section \<open>Properties\<close>

subsection \<open>Basic facts\<close>

lemma exec_simps [simp]:
  "fst (exec E c t) = respond E t c"
  "snd (exec E c t) = t @ [c]"
  by (simp_all add: exec_def)

lemma demo_Verify:
  "Verify (demo_env fails) demo_action =
     (None, demo_action\<lparr>
        Partitions := [(demo_partition ''efi'' ''0%'' ''10%'' ''fat32'' [''boot''])\<lparr>number := 1\<rparr>,
                       (demo_partition ''root'' ''10%'' ''100%'' ''ext4'' [])\<lparr>number := 2\<rparr>],
        Mountpoints := [(demo_mountpoint ''/'' ''root'')\<lparr>part := Some 1\<rparr>,
                        (demo_mountpoint ''/boot/efi'' ''efi'')\<lparr>part := Some 0\<rparr>],
        size' := 1000000000\<rparr>)"
  by (simp add: Verify_def demo_action_def demo_env_def demo_partition_def demo_mountpoint_def
      demo_FromHumanSize_def Let_def)

text \<open>\<open>string_of_nat\<close> writes the decimal digits of its argument.\<close>

lemma string_of_nat_inverse: "nat_of_string (string_of_nat n) = n"
proof (induction n rule: string_of_nat.induct)
  case (1 n)
  have digit: "\<And>d. d < 10 \<Longrightarrow> of_char (''0123456789'' ! d) - 48 = (d::nat)"
  proof -
    fix d :: nat assume "d < 10"
    then have "d \<in> {0,1,2,3,4,5,6,7,8,9}" by auto
    then show "of_char (''0123456789'' ! d) - 48 = d" by auto
  qed
  show ?case
  proof (cases "n < 10")
    case True
    then have "string_of_nat n = [''0123456789'' ! n]"
      by (subst string_of_nat.simps) simp
    then show ?thesis
      using digit[OF True] by (simp add: nat_of_string_def)
  next
    case False
    then have unfold: "string_of_nat n = string_of_nat (n div 10) @ [''0123456789'' ! (n mod 10)]"
      by (subst string_of_nat.simps) simp
    have "n mod 10 < 10" by simp
    from digit[OF this] 1[OF False] show ?thesis
      by (simp add: unfold nat_of_string_def)
  qed
qed

lemma Sprintf_d_decimal: "0 \<le> n \<Longrightarrow> int (nat_of_string (Sprintf_d n)) = n"
  by (simp add: Sprintf_d_def string_of_nat_inverse)

text \<open>The byte comparison of the source singles out the ten decimal digits.\<close>

lemma digit_byte_iff: "(CHR ''0'' \<le> c \<and> c \<le> CHR ''9'') = (c \<in> set ''0123456789'')"
proof -
  have "(CHR ''0'' \<le> c \<and> c \<le> CHR ''9'') = (48 \<le> (of_char c :: nat) \<and> (of_char c :: nat) \<le> 57)"
    by (simp add: less_eq_char_def)
  also have "\<dots> = ((of_char c :: nat) \<in> {48,49,50,51,52,53,54,55,56,57})"
  proof -
    have "\<And>k::nat. (48 \<le> k \<and> k \<le> 57) = (k \<in> {48,49,50,51,52,53,54,55,56,57})"
      by (simp only: insert_iff empty_iff) presburger
    then show ?thesis by blast
  qed
  also have "\<dots> = (c \<in> set ''0123456789'')"
  proof -
    have inj: "\<And>d. (of_char c = (of_char d :: nat)) = (c = d)" by simp
    show ?thesis
      using inj[of "CHR ''0''"] inj[of "CHR ''1''"] inj[of "CHR ''2''"] inj[of "CHR ''3''"]
            inj[of "CHR ''4''"] inj[of "CHR ''5''"] inj[of "CHR ''6''"] inj[of "CHR ''7''"]
            inj[of "CHR ''8''"] inj[of "CHR ''9''"]
      by simp
  qed
  finally show ?thesis .
qed

subsection \<open>Device paths\<close>

text \<open>
  C5. For a backing device path and an ordinal \<open>n\<close>: if the last character of the path is
  a decimal digit, the partition device path is the backing path followed by \<open>p\<close> and the
  decimal digits of \<open>n\<close>; otherwise it is the backing path followed by the digits of
  \<open>n\<close>. A path has a last character when it is not empty; the empty path is the subject
  of C10.
\<close>

theorem getPartitionDevice_suffix:
  assumes "image' ctx \<noteq> []"
  shows "getPartitionDevice n ctx =
           Inr (image' ctx
                @ (if last (image' ctx) \<in> set ''0123456789'' then ''p'' else [])
                @ Sprintf_d n)"
  using assms
  by (simp add: getPartitionDevice_def Let_def digit_byte_iff last_conv_nth)

text \<open>The two examples of the specification: \<open>/dev/vda\<close> with ordinal 2, and
  \<open>/dev/nvme0n1\<close> with ordinal 1.\<close>

theorem getPartitionDevice_suffix_witness:
  "getPartitionDevice 2 (demo_context\<lparr>image' := ''/dev/vda''\<rparr>) = Inr ''/dev/vda2'' \<and>
   getPartitionDevice 1 (demo_context\<lparr>image' := ''/dev/nvme0n1''\<rparr>) = Inr ''/dev/nvme0n1p1''"
proof -
  have a: "image' (demo_context\<lparr>image' := ''/dev/vda''\<rparr>) \<noteq> []" by simp
  have b: "image' (demo_context\<lparr>image' := ''/dev/nvme0n1''\<rparr>) \<noteq> []" by simp
  have d2: "Sprintf_d 2 = ''2''" by code_simp
  have d1: "Sprintf_d 1 = ''1''" by code_simp
  show ?thesis
    using getPartitionDevice_suffix[OF a, of 2] getPartitionDevice_suffix[OF b, of 1]
    by (simp add: d1 d2)
qed

text \<open>
  C10. \<open>getPartitionDevice\<close> yields a path exactly when the backing device path of the
  context is not empty; on the empty path the read of the last byte is out of range and the
  call panics. Both callers inherit this: with an empty backing path \<open>formatPartition\<close>
  panics before it runs any command, and the mount loop of \<open>Run\<close> panics at its first
  bound mountpoint before it mounts anything.
\<close>

theorem getPartitionDevice_needs_image:
  "(getPartitionDevice n ctx = Inl index_out_of_range) = (image' ctx = []) \<and>
   ((\<exists>dev. getPartitionDevice n ctx = Inr dev) = (image' ctx \<noteq> [])) \<and>
   (image' ctx = [] \<longrightarrow> formatPartition E p ctx t = (Inl index_out_of_range, t)) \<and>
   (image' ctx = [] \<and> deref ps (part m) \<noteq> None \<longrightarrow>
      Run_mounts E ps ctx (m # ms) t = (Some index_out_of_range, t))"
  by (auto simp: getPartitionDevice_def formatPartition_def Let_def)

theorem getPartitionDevice_needs_image_witness:
  "getPartitionDevice 1 demo_context = Inl index_out_of_range \<and>
   formatPartition (demo_env (\<lambda>c. False)) (demo_partition ''root'' ''0%'' ''100%'' ''ext4'' [])
      demo_context [] = (Inl index_out_of_range, []) \<and>
   Run_mounts (demo_env (\<lambda>c. False)) [demo_partition ''root'' ''0%'' ''100%'' ''ext4'' []]
      demo_context [(demo_mountpoint ''/'' ''root'')\<lparr>part := Some 0\<rparr>] [] =
        (Some index_out_of_range, []) \<and>
   (\<exists>dev. getPartitionDevice 1 (demo_context\<lparr>image' := ''/dev/vda''\<rparr>) = Inr dev)"
proof -
  have e: "image' demo_context = []" by (simp add: demo_context_def)
  have ne: "image' (demo_context\<lparr>image' := ''/dev/vda''\<rparr>) \<noteq> []" by simp
  have d: "deref [demo_partition ''root'' ''0%'' ''100%'' ''ext4'' []]
             (part ((demo_mountpoint ''/'' ''root'')\<lparr>part := Some 0\<rparr>)) \<noteq> None"
    by (simp add: deref_def)
  show ?thesis
    using e ne d
      getPartitionDevice_needs_image[of 1 demo_context "demo_env (\<lambda>c. False)"
        "demo_partition ''root'' ''0%'' ''100%'' ''ext4'' []" "[]"
        "[demo_partition ''root'' ''0%'' ''100%'' ''ext4'' []]"
        "(demo_mountpoint ''/'' ''root'')\<lparr>part := Some 0\<rparr>" "[]"]
      getPartitionDevice_needs_image[of 1 "demo_context\<lparr>image' := ''/dev/vda''\<rparr>"]
    by blast
qed

subsection \<open>Cleanup\<close>

lemma Cleanup_loop_trace:
  "n \<le> length ms \<Longrightarrow>
   Cleanup_loop E ctx ms n t =
     t @ map (\<lambda>m. Unmount (path_Join E (imageMntDir ctx) (Mountpoint m))) (rev (take n ms))"
proof (induction n arbitrary: t)
  case 0
  then show ?case by simp
next
  case (Suc n)
  then have "take (Suc n) ms = take n ms @ [ms ! n]"
    by (simp add: take_Suc_conv_app_nth)
  with Suc show ?case by (simp add: Let_def)
qed

text \<open>
  C3. For every mountpoint list and in every environment, that is, whatever the outcome of
  each unmount is, the calls that \<open>Cleanup\<close> adds to the trace are the unmounts of all
  mountpoints in the reverse of their declared order, each exactly once, followed by the
  detach of the loop device when \<open>usingLoop\<close> is set; \<open>Cleanup\<close> returns no error.
\<close>

theorem Cleanup_unmounts_in_reverse:
  "Cleanup E i ctx t =
     (None,
      t @ map (\<lambda>m. Unmount (path_Join E (imageMntDir ctx) (Mountpoint m))) (rev (Mountpoints i))
        @ (if usingLoop i then [Exec_Run [''losetup'', ''-d'', image' ctx]] else []))"
  by (simp add: Cleanup_def Let_def Cleanup_loop_trace)

text \<open>The example of the specification, in an environment where every unmount fails: the
  mountpoints \<open>/\<close>, \<open>/boot\<close>, \<open>/boot/efi\<close> are unmounted last to first.\<close>

theorem Cleanup_unmounts_in_reverse_witness:
  "respond (demo_env is_unmount) [] (Unmount (demo_Join ''/scratch/mnt'' ''/boot/efi'')) =
     Failure ''exit status 1'' \<and>
   Cleanup (demo_env is_unmount)
     (demo_action\<lparr>Mountpoints := [demo_mountpoint ''/'' ''root'', demo_mountpoint ''/boot'' ''boot'',
                                   demo_mountpoint ''/boot/efi'' ''efi'']\<rparr>)
     (demo_context\<lparr>imageMntDir := ''/scratch/mnt''\<rparr>) [] =
     (None, [Unmount (demo_Join ''/scratch/mnt'' ''/boot/efi''),
             Unmount (demo_Join ''/scratch/mnt'' ''/boot''),
             Unmount (demo_Join ''/scratch/mnt'' ''/'')])"
  using Cleanup_unmounts_in_reverse[of "demo_env is_unmount"
      "demo_action\<lparr>Mountpoints := [demo_mountpoint ''/'' ''root'', demo_mountpoint ''/boot'' ''boot'',
                                    demo_mountpoint ''/boot/efi'' ''efi'']\<rparr>"
      "demo_context\<lparr>imageMntDir := ''/scratch/mnt''\<rparr>" "[]"]
  by (simp add: demo_env_def demo_action_def demo_mountpoint_def)

subsection \<open>The generated artifacts\<close>

lemma generateFSTab_loop_ok:
  "\<forall>m \<in> set ms. uuid_known ps m \<Longrightarrow>
   generateFSTab_loop ps ms ctx = (None, ctx\<lparr>imageFSTab := imageFSTab ctx @ fstab_text ps ms\<rparr>)"
proof (induction ms arbitrary: ctx)
  case Nil
  then show ?case by (simp add: fstab_text_def)
next
  case (Cons m ms)
  from Cons.prems obtain p where p: "deref ps (part m) = Some p" "FSUUID p \<noteq> []"
    by (auto simp: uuid_known_def split: option.splits)
  from Cons.prems have rest: "\<forall>m \<in> set ms. uuid_known ps m" by simp
  show ?case
    using p Cons.IH[OF rest] by (simp add: fstab_text_def)
qed

lemma generateFSTab_loop_missing:
  "\<forall>m \<in> set ms. bound ps m \<Longrightarrow> \<exists>m \<in> set ms. \<not> uuid_known ps m \<Longrightarrow>
   \<exists>name. fst (generateFSTab_loop ps ms ctx) =
             Some (Error (''Missing fs UUID for partition '' @ name @ ''!?!''))"
proof (induction ms arbitrary: ctx)
  case Nil
  then show ?case by simp
next
  case (Cons m ms)
  from Cons.prems(1) obtain p where p: "deref ps (part m) = Some p"
    by (auto simp: bound_def)
  show ?case
  proof (cases "FSUUID p = []")
    case True
    with p show ?thesis by simp
  next
    case False
    with p Cons.prems have "\<forall>m \<in> set ms. bound ps m" "\<exists>m \<in> set ms. \<not> uuid_known ps m"
      by (auto simp: uuid_known_def)
    from Cons.IH[OF this] p False show ?thesis by simp
  qed
qed

lemma generateKernelRoot_loop_no_root:
  "\<forall>m \<in> set ms. Mountpoint m \<noteq> ''/'' \<Longrightarrow> generateKernelRoot_loop ps ms ctx = (None, ctx)"
  by (induction ms) auto

lemma generateKernelRoot_loop_first_root:
  "\<forall>m \<in> set ms1. Mountpoint m \<noteq> ''/'' \<Longrightarrow> Mountpoint m = ''/'' \<Longrightarrow>
   deref ps (part m) = Some p \<Longrightarrow>
   generateKernelRoot_loop ps (ms1 @ m # ms2) ctx =
     (if FSUUID p = [] then (Some (Error ''No fs UUID for root partition !?!''), ctx)
      else (None, ctx\<lparr>imageKernelRoot := ''root=UUID='' @ FSUUID p\<rparr>))"
  by (induction ms1) auto

lemma formatted_action_simps:
  "Partitions formatted_action =
     [(demo_partition ''efi'' ''0%'' ''10%'' ''fat32'' [''boot''])\<lparr>number := 1, FSUUID := ''ABCD-1234''\<rparr>,
      (demo_partition ''root'' ''10%'' ''100%'' ''ext4'' [])\<lparr>number := 2, FSUUID := ''ABCD-1234''\<rparr>]"
  "Mountpoints formatted_action =
     [(demo_mountpoint ''/'' ''root'')\<lparr>part := Some 1\<rparr>,
      (demo_mountpoint ''/boot/efi'' ''efi'')\<lparr>part := Some 0\<rparr>]"
  by (simp_all add: formatted_action_def verified_action_def demo_Verify)

text \<open>
  C7. For every resolved model in which every mountpoint is bound to a partition with a
  non-empty UUID, \<open>generateFSTab\<close> succeeds and leaves in the buffer exactly one line for
  each mountpoint, whatever the buffer held before; a second invocation on the result gives
  the same result again (the same buffer, byte for byte, and nothing twice).
\<close>

theorem generateFSTab_idempotent:
  assumes "\<forall>m \<in> set (Mountpoints i). uuid_known (Partitions i) m"
  shows "generateFSTab i ctx =
           (None, ctx\<lparr>imageFSTab := fstab_text (Partitions i) (Mountpoints i)\<rparr>) \<and>
         generateFSTab i (snd (generateFSTab i ctx)) = generateFSTab i ctx"
  using assms by (simp add: generateFSTab_def generateFSTab_loop_ok)

theorem generateFSTab_idempotent_witness:
  "generateFSTab formatted_action (demo_context\<lparr>imageFSTab := ''stale''\<rparr>) =
     (None, demo_context\<lparr>imageFSTab :=
        ''UUID=ABCD-1234'' @ [CHR 0x09] @ ''/'' @ [CHR 0x09] @ ''ext4'' @ [CHR 0x09] @ ''defaults''
          @ [CHR 0x09] @ ''0'' @ [CHR 0x09] @ ''0'' @ [CHR 0x0A] @
        ''UUID=ABCD-1234'' @ [CHR 0x09] @ ''/boot/efi'' @ [CHR 0x09] @ ''fat32'' @ [CHR 0x09]
          @ ''defaults'' @ [CHR 0x09] @ ''0'' @ [CHR 0x09] @ ''0'' @ [CHR 0x0A]\<rparr>) \<and>
   generateFSTab formatted_action
     (snd (generateFSTab formatted_action (demo_context\<lparr>imageFSTab := ''stale''\<rparr>))) =
     generateFSTab formatted_action (demo_context\<lparr>imageFSTab := ''stale''\<rparr>)"
proof -
  have h: "\<forall>m \<in> set (Mountpoints formatted_action). uuid_known (Partitions formatted_action) m"
    by (simp add: formatted_action_simps uuid_known_def deref_def demo_partition_def
        demo_mountpoint_def)
  note th = generateFSTab_idempotent[OF h, of "demo_context\<lparr>imageFSTab := ''stale''\<rparr>"]
  have a: "generateFSTab formatted_action (demo_context\<lparr>imageFSTab := ''stale''\<rparr>) =
     (None, demo_context\<lparr>imageFSTab :=
        ''UUID=ABCD-1234'' @ [CHR 0x09] @ ''/'' @ [CHR 0x09] @ ''ext4'' @ [CHR 0x09] @ ''defaults''
          @ [CHR 0x09] @ ''0'' @ [CHR 0x09] @ ''0'' @ [CHR 0x0A] @
        ''UUID=ABCD-1234'' @ [CHR 0x09] @ ''/boot/efi'' @ [CHR 0x09] @ ''fat32'' @ [CHR 0x09]
          @ ''defaults'' @ [CHR 0x09] @ ''0'' @ [CHR 0x09] @ ''0'' @ [CHR 0x0A]\<rparr>)"
    using th[THEN conjunct1]
    by (simp add: formatted_action_simps fstab_text_def fstab_line_def deref_def
        demo_partition_def demo_mountpoint_def)
  show ?thesis
    using a th[THEN conjunct2] by (rule conjI)
qed


text \<open>
  C8, as stated: with no mountpoint at the root path, kernel-root generation "yields the
  empty string". The source assigns the kernel-root string only when it finds a root
  mountpoint; otherwise it leaves the string of the context as it is. On a context that
  already holds a kernel root parameter, a recipe without root mountpoint succeeds and the
  string is not empty afterwards.
\<close>

theorem generateKernelRoot_keeps_old_root:
  "generateKernelRoot rootless_action used_context = (None, used_context) \<and>
   map Mountpoint (Mountpoints rootless_action) = [''/boot/efi''] \<and>
   imageKernelRoot (snd (generateKernelRoot rootless_action used_context)) = ''root=UUID=0000-0001'' \<and>
   imageKernelRoot (snd (generateKernelRoot rootless_action used_context)) \<noteq> []"
  by (simp add: generateKernelRoot_def rootless_action_def used_context_def demo_mountpoint_def)

text \<open>
  C8, as amended. Given a mountpoint list with a single root mountpoint (target path exactly
  \<open>/\<close>, at any position of the list, no other mountpoint targeting \<open>/\<close>) bound to a
  partition whose UUID is \<open>ABCD-1234\<close>, kernel-root generation succeeds and sets the
  kernel-root string to exactly \<open>root=UUID=ABCD-1234\<close>; given a mountpoint list in which
  no mountpoint targets \<open>/\<close>, it succeeds without error and leaves the context, and so
  the kernel-root string, unchanged (the empty string when it was empty before the call).
\<close>

theorem generateKernelRoot_root_or_unchanged:
  "(Mountpoints i = ms1 @ m # ms2 \<and> (\<forall>m' \<in> set (ms1 @ ms2). Mountpoint m' \<noteq> ''/'') \<and>
    Mountpoint m = ''/'' \<and> deref (Partitions i) (part m) = Some p \<and>
    FSUUID p = ''ABCD-1234'' \<longrightarrow>
      generateKernelRoot i ctx = (None, ctx\<lparr>imageKernelRoot := ''root=UUID=ABCD-1234''\<rparr>)) \<and>
   ((\<forall>m \<in> set (Mountpoints i). Mountpoint m \<noteq> ''/'') \<longrightarrow>
      generateKernelRoot i ctx = (None, ctx))"
proof (intro conjI impI)
  assume a: "Mountpoints i = ms1 @ m # ms2 \<and> (\<forall>m' \<in> set (ms1 @ ms2). Mountpoint m' \<noteq> ''/'') \<and>
    Mountpoint m = ''/'' \<and> deref (Partitions i) (part m) = Some p \<and> FSUUID p = ''ABCD-1234''"
  then have before: "\<forall>m' \<in> set ms1. Mountpoint m' \<noteq> ''/''" by simp
  from a have root: "Mountpoint m = ''/''" and p: "deref (Partitions i) (part m) = Some p"
    and uuid: "FSUUID p = ''ABCD-1234''" and ms: "Mountpoints i = ms1 @ m # ms2"
    by simp_all
  show "generateKernelRoot i ctx = (None, ctx\<lparr>imageKernelRoot := ''root=UUID=ABCD-1234''\<rparr>)"
    unfolding generateKernelRoot_def ms
    using generateKernelRoot_loop_first_root[OF before root p, of ms2 ctx] uuid
    by simp
next
  assume "\<forall>m \<in> set (Mountpoints i). Mountpoint m \<noteq> ''/''"
  then show "generateKernelRoot i ctx = (None, ctx)"
    by (simp add: generateKernelRoot_def generateKernelRoot_loop_no_root)
qed

text \<open>The recipe itself, with the root mountpoint first, and the same recipe with the root
  mountpoint last; then the recipe without root mountpoint on a fresh context.\<close>

theorem generateKernelRoot_root_or_unchanged_witness:
  "generateKernelRoot formatted_action demo_context =
     (None, demo_context\<lparr>imageKernelRoot := ''root=UUID=ABCD-1234''\<rparr>) \<and>
   generateKernelRoot
     (formatted_action\<lparr>Mountpoints := [(demo_mountpoint ''/boot/efi'' ''efi'')\<lparr>part := Some 0\<rparr>,
                                        (demo_mountpoint ''/'' ''root'')\<lparr>part := Some 1\<rparr>]\<rparr>)
     demo_context = (None, demo_context\<lparr>imageKernelRoot := ''root=UUID=ABCD-1234''\<rparr>) \<and>
   generateKernelRoot rootless_action demo_context = (None, demo_context) \<and>
   imageKernelRoot (snd (generateKernelRoot rootless_action demo_context)) = []"
proof -
  let ?root = "(demo_mountpoint ''/'' ''root'')\<lparr>part := Some 1\<rparr>"
  let ?efi = "(demo_mountpoint ''/boot/efi'' ''efi'')\<lparr>part := Some 0\<rparr>"
  let ?j = "formatted_action\<lparr>Mountpoints := [?efi, ?root]\<rparr>"
  let ?p = "(demo_partition ''root'' ''10%'' ''100%'' ''ext4'' [])\<lparr>number := 2, FSUUID := ''ABCD-1234''\<rparr>"
  have first: "Mountpoints formatted_action = [] @ ?root # [?efi] \<and>
               (\<forall>m' \<in> set ([] @ [?efi]). Mountpoint m' \<noteq> ''/'') \<and> Mountpoint ?root = ''/'' \<and>
               deref (Partitions formatted_action) (part ?root) = Some ?p \<and>
               FSUUID ?p = ''ABCD-1234''"
    by (simp add: formatted_action_simps deref_def demo_mountpoint_def)
  have last: "Mountpoints ?j = [?efi] @ ?root # [] \<and>
              (\<forall>m' \<in> set ([?efi] @ []). Mountpoint m' \<noteq> ''/'') \<and> Mountpoint ?root = ''/'' \<and>
              deref (Partitions ?j) (part ?root) = Some ?p \<and> FSUUID ?p = ''ABCD-1234''"
    by (simp add: formatted_action_simps deref_def demo_mountpoint_def)
  have none: "\<forall>m \<in> set (Mountpoints rootless_action). Mountpoint m \<noteq> ''/''"
    by (simp add: rootless_action_def demo_mountpoint_def)
  have empty: "imageKernelRoot demo_context = []"
    by (simp add: demo_context_def)
  from generateKernelRoot_root_or_unchanged[of formatted_action "[]" ?root "[?efi]" ?p demo_context]
    first
  have c1: "generateKernelRoot formatted_action demo_context =
              (None, demo_context\<lparr>imageKernelRoot := ''root=UUID=ABCD-1234''\<rparr>)"
    by blast
  from generateKernelRoot_root_or_unchanged[of ?j "[?efi]" ?root "[]" ?p demo_context] last
  have c2: "generateKernelRoot ?j demo_context =
              (None, demo_context\<lparr>imageKernelRoot := ''root=UUID=ABCD-1234''\<rparr>)"
    by blast
  from generateKernelRoot_root_or_unchanged[of rootless_action "[]" ?root "[]" ?p demo_context]
    none
  have c3: "generateKernelRoot rootless_action demo_context = (None, demo_context)"
    by blast
  from c1 c2 c3 empty show ?thesis by simp
qed

text \<open>
  C9, as stated: \<open>generateKernelRoot\<close> "returns an error if a mountpoint targets \<open>/\<close> and
  its bound partition's resolved UUID is empty". The loop of the source stops at the first
  mountpoint for the root path. In a recipe with two of them, the first bound to a
  formatted partition and the second to a partition without UUID, the second mountpoint
  targets \<open>/\<close> and its partition has an empty UUID, and no error is returned.
\<close>

theorem generateKernelRoot_second_root_unchecked:
  "Mountpoint (Mountpoints two_roots_action ! 1) = ''/'' \<and>
   map_option FSUUID (deref (Partitions two_roots_action) (part (Mountpoints two_roots_action ! 1)))
     = Some [] \<and>
   generateKernelRoot two_roots_action demo_context =
     (None, demo_context\<lparr>imageKernelRoot := ''root=UUID=ABCD-1234''\<rparr>)"
  by (simp add: generateKernelRoot_def two_roots_action_def demo_action_def demo_mountpoint_def
      demo_partition_def deref_def)

text \<open>
  C9, as amended. In a resolved model (every mountpoint bound), \<open>generateFSTab\<close> returns
  the missing-UUID error if the partition of any mountpoint has an empty UUID;
  \<open>generateKernelRoot\<close> returns its error if the first mountpoint that targets \<open>/\<close> is
  bound to a partition with an empty UUID. With the needed UUIDs non-empty both succeed:
  \<open>generateFSTab\<close> when every mountpoint has one, \<open>generateKernelRoot\<close> when the first
  root mountpoint has one or when there is no root mountpoint.
\<close>

theorem generators_need_uuid:
  "((\<forall>m \<in> set (Mountpoints i). bound (Partitions i) m) \<and>
    (\<exists>m \<in> set (Mountpoints i). \<not> uuid_known (Partitions i) m) \<longrightarrow>
      (\<exists>name. fst (generateFSTab i ctx) =
                 Some (Error (''Missing fs UUID for partition '' @ name @ ''!?!'')))) \<and>
   (Mountpoints i = ms1 @ m # ms2 \<and> (\<forall>m' \<in> set ms1. Mountpoint m' \<noteq> ''/'') \<and>
    Mountpoint m = ''/'' \<and> deref (Partitions i) (part m) = Some p \<and> FSUUID p = [] \<longrightarrow>
      generateKernelRoot i ctx = (Some (Error ''No fs UUID for root partition !?!''), ctx)) \<and>
   ((\<forall>m \<in> set (Mountpoints i). uuid_known (Partitions i) m) \<longrightarrow>
      fst (generateFSTab i ctx) = None) \<and>
   (Mountpoints i = ms1 @ m # ms2 \<and> (\<forall>m' \<in> set ms1. Mountpoint m' \<noteq> ''/'') \<and>
    Mountpoint m = ''/'' \<and> uuid_known (Partitions i) m \<longrightarrow>
      fst (generateKernelRoot i ctx) = None) \<and>
   ((\<forall>m \<in> set (Mountpoints i). Mountpoint m \<noteq> ''/'') \<longrightarrow> fst (generateKernelRoot i ctx) = None)"
proof (intro conjI impI)
  assume "(\<forall>m \<in> set (Mountpoints i). bound (Partitions i) m) \<and>
          (\<exists>m \<in> set (Mountpoints i). \<not> uuid_known (Partitions i) m)"
  then show "\<exists>name. fst (generateFSTab i ctx) =
                 Some (Error (''Missing fs UUID for partition '' @ name @ ''!?!''))"
    unfolding generateFSTab_def using generateFSTab_loop_missing by blast
next
  assume "Mountpoints i = ms1 @ m # ms2 \<and> (\<forall>m' \<in> set ms1. Mountpoint m' \<noteq> ''/'') \<and>
    Mountpoint m = ''/'' \<and> deref (Partitions i) (part m) = Some p \<and> FSUUID p = []"
  then show "generateKernelRoot i ctx = (Some (Error ''No fs UUID for root partition !?!''), ctx)"
    by (simp add: generateKernelRoot_def generateKernelRoot_loop_first_root)
next
  assume "\<forall>m \<in> set (Mountpoints i). uuid_known (Partitions i) m"
  then show "fst (generateFSTab i ctx) = None"
    by (simp add: generateFSTab_def generateFSTab_loop_ok)
next
  assume a: "Mountpoints i = ms1 @ m # ms2 \<and> (\<forall>m' \<in> set ms1. Mountpoint m' \<noteq> ''/'') \<and>
    Mountpoint m = ''/'' \<and> uuid_known (Partitions i) m"
  then obtain q where "deref (Partitions i) (part m) = Some q" "FSUUID q \<noteq> []"
    by (auto simp: uuid_known_def split: option.splits)
  with a show "fst (generateKernelRoot i ctx) = None"
    by (simp add: generateKernelRoot_def generateKernelRoot_loop_first_root)
next
  assume "\<forall>m \<in> set (Mountpoints i). Mountpoint m \<noteq> ''/''"
  then show "fst (generateKernelRoot i ctx) = None"
    by (simp add: generateKernelRoot_def generateKernelRoot_loop_no_root)
qed

lemma verified_action_simps:
  "Partitions verified_action =
     [(demo_partition ''efi'' ''0%'' ''10%'' ''fat32'' [''boot''])\<lparr>number := 1\<rparr>,
      (demo_partition ''root'' ''10%'' ''100%'' ''ext4'' [])\<lparr>number := 2\<rparr>]"
  "Mountpoints verified_action =
     [(demo_mountpoint ''/'' ''root'')\<lparr>part := Some 1\<rparr>,
      (demo_mountpoint ''/boot/efi'' ''efi'')\<lparr>part := Some 0\<rparr>]"
  "usingLoop verified_action = False"
  "ImageName verified_action = ''disk.img''"
  "size' verified_action = 1000000000"
  "PartitionType verified_action = ''gpt''"
  by (simp_all add: verified_action_def demo_Verify) (simp_all add: demo_action_def)

theorem generators_need_uuid_witness:
  "(\<exists>name. fst (generateFSTab verified_action demo_context) =
             Some (Error (''Missing fs UUID for partition '' @ name @ ''!?!''))) \<and>
   generateKernelRoot verified_action demo_context =
     (Some (Error ''No fs UUID for root partition !?!''), demo_context) \<and>
   fst (generateFSTab formatted_action demo_context) = None \<and>
   fst (generateKernelRoot formatted_action demo_context) = None \<and>
   fst (generateKernelRoot rootless_action demo_context) = None"
proof -
  let ?root = "(demo_mountpoint ''/'' ''root'')\<lparr>part := Some 1\<rparr>"
  let ?efi = "(demo_mountpoint ''/boot/efi'' ''efi'')\<lparr>part := Some 0\<rparr>"
  let ?p = "(demo_partition ''root'' ''10%'' ''100%'' ''ext4'' [])\<lparr>number := 2\<rparr>"
  have h1: "(\<forall>m \<in> set (Mountpoints verified_action). bound (Partitions verified_action) m) \<and>
            (\<exists>m \<in> set (Mountpoints verified_action). \<not> uuid_known (Partitions verified_action) m)"
    by (simp add: verified_action_simps bound_def uuid_known_def deref_def demo_partition_def
        demo_mountpoint_def)
  have h2: "Mountpoints verified_action = [] @ ?root # [?efi] \<and>
            (\<forall>m' \<in> set []. Mountpoint m' \<noteq> ''/'') \<and> Mountpoint ?root = ''/'' \<and>
            deref (Partitions verified_action) (part ?root) = Some ?p \<and> FSUUID ?p = []"
    by (simp add: verified_action_simps deref_def demo_partition_def demo_mountpoint_def)
  have h3: "\<forall>m \<in> set (Mountpoints formatted_action). uuid_known (Partitions formatted_action) m"
    by (simp add: formatted_action_simps uuid_known_def deref_def demo_partition_def
        demo_mountpoint_def)
  have h4: "Mountpoints formatted_action = [] @ ?root # [?efi] \<and>
            (\<forall>m' \<in> set []. Mountpoint m' \<noteq> ''/'') \<and> Mountpoint ?root = ''/'' \<and>
            uuid_known (Partitions formatted_action) ?root"
    by (simp add: formatted_action_simps uuid_known_def deref_def demo_partition_def
        demo_mountpoint_def)
  have h5: "\<forall>m \<in> set (Mountpoints rootless_action). Mountpoint m \<noteq> ''/''"
    by (simp add: rootless_action_def demo_mountpoint_def)
  note a = generators_need_uuid[of verified_action demo_context "[]" ?root "[?efi]" ?p]
  note b = generators_need_uuid[of formatted_action demo_context "[]" ?root "[?efi]" ?p]
  note c = generators_need_uuid[of rootless_action demo_context "[]" ?root "[?efi]" ?p]
  from a h1 have c1: "\<exists>name. fst (generateFSTab verified_action demo_context) =
             Some (Error (''Missing fs UUID for partition '' @ name @ ''!?!''))"
    by blast
  from a h2 have c2: "generateKernelRoot verified_action demo_context =
     (Some (Error ''No fs UUID for root partition !?!''), demo_context)"
    by blast
  from b h3 have c3: "fst (generateFSTab formatted_action demo_context) = None"
    by blast
  from b h4 have c4: "fst (generateKernelRoot formatted_action demo_context) = None"
    by blast
  from c h5 have c5: "fst (generateKernelRoot rootless_action demo_context) = None"
    by blast
  from c1 c2 c3 c4 c5 show ?thesis by blast
qed


subsection \<open>Validation\<close>

lemma Verify_partitions_ok:
  "Verify_partitions num ps = (None, ps') \<Longrightarrow>
   length ps' = length ps \<and> (\<forall>k < length ps. ps' ! k = (ps ! k)\<lparr>number := num + int k\<rparr>)"
proof (induction ps arbitrary: num ps')
  case Nil
  then show ?case by simp
next
  case (Cons p ps)
  from Cons.prems obtain qs where
    rec: "Verify_partitions (num + 1) ps = (None, qs)" and ps': "ps' = p\<lparr>number := num\<rparr> # qs"
    by (auto simp: Let_def split: if_splits prod.splits)
  from Cons.IH[OF rec] have len: "length qs = length ps"
    and nth: "\<And>k. k < length ps \<Longrightarrow> qs ! k = (ps ! k)\<lparr>number := num + 1 + int k\<rparr>"
    by auto
  show ?case
  proof (intro conjI allI impI)
    show "length ps' = length (p # ps)" using ps' len by simp
  next
    fix k assume "k < length (p # ps)"
    then show "ps' ! k = ((p # ps) ! k)\<lparr>number := num + int k\<rparr>"
      using ps' nth by (cases k) (auto simp: algebra_simps)
  qed
qed

lemma Verify_partitions_names:
  "map Name (snd (Verify_partitions num ps)) = map Name ps"
  by (induction ps arbitrary: num) (simp_all add: Let_def case_prod_beta)

lemma Verify_partitions_only_number:
  "map (\<lambda>p. p\<lparr>number := 0\<rparr>) (snd (Verify_partitions num ps)) = map (\<lambda>p. p\<lparr>number := 0\<rparr>) ps"
  by (induction ps arbitrary: num) (simp_all add: Let_def case_prod_beta)

lemma Verify_Partitions:
  "Partitions (snd (Verify E i)) = snd (Verify_partitions 1 (Partitions i))"
  by (auto simp: Verify_def Let_def split: prod.splits option.splits sum.splits)

lemma Verify_ok_partitions:
  "fst (Verify E i) = None \<Longrightarrow> fst (Verify_partitions 1 (Partitions i)) = None"
  by (auto simp: Verify_def Let_def split: prod.splits option.splits sum.splits)

text \<open>
  C4. Whenever \<open>Verify\<close> succeeds on a list of \<open>N\<close> partitions, the ordinals of the
  partitions afterwards are \<open>1, ..., N\<close> in declaration order: the partition at position
  \<open>k\<close> (counted from 0) is the declared partition at that position with ordinal \<open>k + 1\<close>
  and nothing else changed. Whether \<open>Verify\<close> succeeds or not, the partitions differ from
  the declared ones in their ordinals only.
\<close>

theorem Verify_assigns_ordinals:
  "(fst (Verify E i) = None \<longrightarrow>
      map number (Partitions (snd (Verify E i))) = [1..int (length (Partitions i))] \<and>
      length (Partitions (snd (Verify E i))) = length (Partitions i) \<and>
      (\<forall>k < length (Partitions i).
         Partitions (snd (Verify E i)) ! k = (Partitions i ! k)\<lparr>number := int k + 1\<rparr>)) \<and>
   map (\<lambda>p. p\<lparr>number := 0\<rparr>) (Partitions (snd (Verify E i))) =
     map (\<lambda>p. p\<lparr>number := 0\<rparr>) (Partitions i)"
proof (intro conjI impI)
  assume ok: "fst (Verify E i) = None"
  let ?ps' = "snd (Verify_partitions 1 (Partitions i))"
  from Verify_ok_partitions[OF ok]
  have "Verify_partitions 1 (Partitions i) = (None, ?ps')"
    by (simp add: prod_eq_iff)
  from Verify_partitions_ok[OF this]
  have len: "length ?ps' = length (Partitions i)"
    and nth: "\<And>k. k < length (Partitions i) \<Longrightarrow> ?ps' ! k = (Partitions i ! k)\<lparr>number := 1 + int k\<rparr>"
    by auto
  show "length (Partitions (snd (Verify E i))) = length (Partitions i)"
    using len by (simp add: Verify_Partitions)
  show "\<forall>k < length (Partitions i).
         Partitions (snd (Verify E i)) ! k = (Partitions i ! k)\<lparr>number := int k + 1\<rparr>"
    using nth by (simp add: Verify_Partitions add.commute)
  show "map number (Partitions (snd (Verify E i))) = [1..int (length (Partitions i))]"
  proof (rule nth_equalityI)
    show "length (map number (Partitions (snd (Verify E i)))) = length [1..int (length (Partitions i))]"
      using len by (simp add: Verify_Partitions)
  next
    fix k assume "k < length (map number (Partitions (snd (Verify E i))))"
    then have k: "k < length (Partitions i)" using len by (simp add: Verify_Partitions)
    then show "map number (Partitions (snd (Verify E i))) ! k = [1..int (length (Partitions i))] ! k"
      using nth[OF k] len by (simp add: Verify_Partitions)
  qed
next
  show "map (\<lambda>p. p\<lparr>number := 0\<rparr>) (Partitions (snd (Verify E i))) =
     map (\<lambda>p. p\<lparr>number := 0\<rparr>) (Partitions i)"
    by (simp add: Verify_Partitions Verify_partitions_only_number)
qed

theorem Verify_assigns_ordinals_witness:
  "fst (Verify (demo_env (\<lambda>c. False)) demo_action) = None \<and>
   map number (Partitions (snd (Verify (demo_env (\<lambda>c. False)) demo_action))) = [1, 2] \<and>
   map Name (Partitions (snd (Verify (demo_env (\<lambda>c. False)) demo_action))) = [''efi'', ''root'']"
proof -
  have ok: "fst (Verify (demo_env (\<lambda>c. False)) demo_action) = None"
    by (simp add: demo_Verify)
  have len: "length (Partitions demo_action) = 2"
    by (simp add: demo_action_def)
  have upto: "[1..(2::int)] = [1, 2]"
    by (simp add: upto.simps)
  have names: "map Name (Partitions (snd (Verify (demo_env (\<lambda>c. False)) demo_action))) =
                 [''efi'', ''root'']"
    by (simp add: demo_Verify demo_partition_def)
  from Verify_assigns_ordinals[of "demo_env (\<lambda>c. False)" demo_action] ok
  have "map number (Partitions (snd (Verify (demo_env (\<lambda>c. False)) demo_action))) =
          [1..int (length (Partitions demo_action))]"
    by blast
  with ok names show ?thesis
    by (simp add: len upto)
qed


lemma find_partition_Some:
  "find_partition ref ps pidx = Some j \<Longrightarrow>
   pidx \<le> j \<and> j - pidx < length ps \<and> Name (ps ! (j - pidx)) = ref \<and>
   (\<forall>j' < j - pidx. Name (ps ! j') \<noteq> ref)"
proof (induction ps arbitrary: pidx)
  case Nil
  then show ?case by simp
next
  case (Cons p ps)
  show ?case
  proof (cases "ref = Name p")
    case True
    with Cons.prems show ?thesis by simp
  next
    case False
    with Cons.prems have rec: "find_partition ref ps (Suc pidx) = Some j" by simp
    from Cons.IH[OF rec] have le: "Suc pidx \<le> j" and lt: "j - Suc pidx < length ps"
      and nm: "Name (ps ! (j - Suc pidx)) = ref"
      and first: "\<And>j'. j' < j - Suc pidx \<Longrightarrow> Name (ps ! j') \<noteq> ref"
      by auto
    from le have eq: "j - pidx = Suc (j - Suc pidx)" by simp
    show ?thesis
    proof (intro conjI allI impI)
      show "pidx \<le> j" using le by simp
      show "j - pidx < length (p # ps)" using lt eq by simp
      show "Name ((p # ps) ! (j - pidx)) = ref" using nm eq by simp
    next
      fix j' assume "j' < j - pidx"
      then show "Name ((p # ps) ! j') \<noteq> ref"
        using False first eq by (cases j') auto
    qed
  qed
qed

lemma find_partition_None:
  "(find_partition ref ps pidx = None) = (ref \<notin> Name ` set ps)"
  by (induction ps arbitrary: pidx) auto

lemma Verify_mountpoints_ok:
  "Verify_mountpoints ps ms = (None, ms') \<Longrightarrow> \<forall>m \<in> set ms. part m = None \<Longrightarrow>
   length ms' = length ms \<and>
   (\<forall>k < length ms. \<exists>j. find_partition (Partition (ms ! k)) ps 0 = Some j \<and>
                          ms' ! k = (ms ! k)\<lparr>part := Some j\<rparr>)"
proof (induction ms arbitrary: ms')
  case Nil
  then show ?case by simp
next
  case (Cons m ms)
  from Cons.prems(2) have fresh: "part m = None" and rest: "\<forall>m \<in> set ms. part m = None"
    by auto
  from Cons.prems(1) fresh obtain j qs where
    j: "find_partition (Partition m) ps 0 = Some j"
    and rec: "Verify_mountpoints ps ms = (None, qs)"
    and ms': "ms' = m\<lparr>part := Some j\<rparr> # qs"
    by (auto simp: Let_def split: option.splits if_splits prod.splits)
  from Cons.IH[OF rec rest] have len: "length qs = length ms"
    and nth: "\<And>k. k < length ms \<Longrightarrow>
                \<exists>j. find_partition (Partition (ms ! k)) ps 0 = Some j \<and>
                    qs ! k = (ms ! k)\<lparr>part := Some j\<rparr>"
    by auto
  show ?case
  proof (intro conjI allI impI)
    show "length ms' = length (m # ms)" using ms' len by simp
  next
    fix k assume "k < length (m # ms)"
    then show "\<exists>j. find_partition (Partition ((m # ms) ! k)) ps 0 = Some j \<and>
                   ms' ! k = ((m # ms) ! k)\<lparr>part := Some j\<rparr>"
      using ms' j nth by (cases k) auto
  qed
qed

lemma Verify_mountpoints_unmatched:
  "\<forall>m' \<in> set ms1. Partition m' \<in> Name ` set ps \<Longrightarrow> Partition m \<notin> Name ` set ps \<Longrightarrow>
   part m = None \<Longrightarrow>
   fst (Verify_mountpoints ps (ms1 @ m # ms2)) =
     Some (Error (''Couldn't fount partition for '' @ Mountpoint m))"
proof (induction ms1)
  case Nil
  then have "find_partition (Partition m) ps 0 = None"
    by (simp add: find_partition_None)
  with Nil show ?case by (simp add: Let_def)
next
  case (Cons a ms1)
  from Cons.prems(1) obtain j where "find_partition (Partition a) ps 0 = Some j"
    using find_partition_None[of "Partition a" ps 0] by auto
  with Cons show ?case by (simp add: Let_def case_prod_beta)
qed

lemma Verify_mountpoints_fails:
  "\<exists>m \<in> set ms. Partition m \<notin> Name ` set ps \<Longrightarrow> \<forall>m \<in> set ms. part m = None \<Longrightarrow>
   fst (Verify_mountpoints ps ms) \<noteq> None"
proof (induction ms)
  case Nil
  then show ?case by simp
next
  case (Cons m ms)
  show ?case
  proof (cases "find_partition (Partition m) ps 0")
    case None
    with Cons.prems show ?thesis by (simp add: Let_def)
  next
    case (Some j)
    then have "Partition m \<in> Name ` set ps"
      using find_partition_None[of "Partition m" ps 0] by auto
    with Cons.prems have "\<exists>m \<in> set ms. Partition m \<notin> Name ` set ps" "\<forall>m \<in> set ms. part m = None"
      by auto
    from Cons.IH[OF this] Some show ?thesis
      by (simp add: Let_def case_prod_beta)
  qed
qed

lemma Verify_names:
  "Name ` set (snd (Verify_partitions num ps)) = Name ` set ps"
  using Verify_partitions_names[of num ps] by (metis set_map)

lemma Verify_fst_partitions:
  "fst (Verify_partitions 1 (Partitions i)) \<noteq> None \<Longrightarrow> fst (Verify E i) \<noteq> None"
  by (auto simp: Verify_def split: prod.splits option.splits)

lemma Verify_fst_mountpoints:
  "fst (Verify_partitions 1 (Partitions i)) = None \<Longrightarrow>
   fst (Verify_mountpoints (snd (Verify_partitions 1 (Partitions i))) (Mountpoints i)) = Some e \<Longrightarrow>
   fst (Verify E i) = Some e"
  by (auto simp: Verify_def split: prod.splits option.splits)

lemma Verify_ok_mountpoints:
  "fst (Verify E i) = None \<Longrightarrow>
   Verify_mountpoints (snd (Verify_partitions 1 (Partitions i))) (Mountpoints i) =
     (None, Mountpoints (snd (Verify E i)))"
  by (auto simp: Verify_def Let_def split: prod.splits option.splits sum.splits)

lemma lifecycle_Verify_fails:
  "fst (Verify E i) \<noteq> None \<Longrightarrow>
   lifecycle E how i ctx args t = (fst (Verify E i), snd (Verify E i), ctx, t)"
  by (auto simp: lifecycle_def split: prod.splits option.splits)

text \<open>
  C6. Take a recipe as it is parsed, with no mountpoint bound yet. If \<open>Verify\<close> succeeds,
  every mountpoint is bound to the first declared partition whose name equals its
  reference, and is otherwise unchanged. If the reference of some mountpoint matches no
  declared partition, \<open>Verify\<close> fails, and the lifecycle stops there with the trace of
  calls as it was: no partitioning, formatting or mounting step, indeed no call at all, is
  made. When the partitions themselves pass their checks, the error is the one that names
  the first mountpoint without a match.
\<close>

theorem Verify_resolves_mountpoints:
  assumes fresh: "\<forall>m \<in> set (Mountpoints i). part m = None"
  shows
    "(fst (Verify E i) = None \<longrightarrow>
        length (Mountpoints (snd (Verify E i))) = length (Mountpoints i) \<and>
        (\<forall>k < length (Mountpoints i). \<exists>j.
            Mountpoints (snd (Verify E i)) ! k = (Mountpoints i ! k)\<lparr>part := Some j\<rparr> \<and>
            j < length (Partitions i) \<and>
            Name (Partitions i ! j) = Partition (Mountpoints i ! k) \<and>
            (\<forall>j' < j. Name (Partitions i ! j') \<noteq> Partition (Mountpoints i ! k)))) \<and>
     ((\<exists>m \<in> set (Mountpoints i). Partition m \<notin> Name ` set (Partitions i)) \<longrightarrow>
        fst (Verify E i) \<noteq> None \<and>
        lifecycle E how i ctx args t = (fst (Verify E i), snd (Verify E i), ctx, t)) \<and>
     (fst (Verify_partitions 1 (Partitions i)) = None \<and> Mountpoints i = ms1 @ m # ms2 \<and>
      (\<forall>m' \<in> set ms1. Partition m' \<in> Name ` set (Partitions i)) \<and>
      Partition m \<notin> Name ` set (Partitions i) \<longrightarrow>
        fst (Verify E i) = Some (Error (''Couldn't fount partition for '' @ Mountpoint m)))"
proof (intro conjI impI)
  let ?ps = "Partitions i" and ?ps' = "snd (Verify_partitions 1 (Partitions i))"
  have names: "map Name ?ps' = map Name ?ps" by (rule Verify_partitions_names)
  then have len: "length ?ps' = length ?ps" by (metis length_map)
  have nm: "\<And>j. j < length ?ps \<Longrightarrow> Name (?ps' ! j) = Name (?ps ! j)"
    using names len by (metis nth_map)
  {
    assume ok: "fst (Verify E i) = None"
    from Verify_mountpoints_ok[OF Verify_ok_mountpoints[OF ok] fresh]
    have l: "length (Mountpoints (snd (Verify E i))) = length (Mountpoints i)"
      and r: "\<And>k. k < length (Mountpoints i) \<Longrightarrow>
                \<exists>j. find_partition (Partition (Mountpoints i ! k)) ?ps' 0 = Some j \<and>
                    Mountpoints (snd (Verify E i)) ! k = (Mountpoints i ! k)\<lparr>part := Some j\<rparr>"
      by auto
    show "length (Mountpoints (snd (Verify E i))) = length (Mountpoints i)" by (rule l)
    show "\<forall>k < length (Mountpoints i). \<exists>j.
            Mountpoints (snd (Verify E i)) ! k = (Mountpoints i ! k)\<lparr>part := Some j\<rparr> \<and>
            j < length (Partitions i) \<and>
            Name (Partitions i ! j) = Partition (Mountpoints i ! k) \<and>
            (\<forall>j' < j. Name (Partitions i ! j') \<noteq> Partition (Mountpoints i ! k))"
    proof (intro allI impI)
      fix k assume k: "k < length (Mountpoints i)"
      from r[OF k] obtain j where
        f: "find_partition (Partition (Mountpoints i ! k)) ?ps' 0 = Some j"
        and u: "Mountpoints (snd (Verify E i)) ! k = (Mountpoints i ! k)\<lparr>part := Some j\<rparr>"
        by blast
      from find_partition_Some[OF f]
      have jl: "j < length ?ps'" and jn: "Name (?ps' ! j) = Partition (Mountpoints i ! k)"
        and jf: "\<And>j'. j' < j \<Longrightarrow> Name (?ps' ! j') \<noteq> Partition (Mountpoints i ! k)"
        by auto
      have "j < length ?ps" using jl len by simp
      moreover have "Name (?ps ! j) = Partition (Mountpoints i ! k)"
        using jn nm jl len by simp
      moreover have "\<forall>j' < j. Name (?ps ! j') \<noteq> Partition (Mountpoints i ! k)"
        using jf nm jl len by simp
      ultimately show "\<exists>j.
            Mountpoints (snd (Verify E i)) ! k = (Mountpoints i ! k)\<lparr>part := Some j\<rparr> \<and>
            j < length (Partitions i) \<and>
            Name (Partitions i ! j) = Partition (Mountpoints i ! k) \<and>
            (\<forall>j' < j. Name (Partitions i ! j') \<noteq> Partition (Mountpoints i ! k))"
        using u by blast
    qed
  }
  {
    assume un: "\<exists>m \<in> set (Mountpoints i). Partition m \<notin> Name ` set (Partitions i)"
    show f: "fst (Verify E i) \<noteq> None"
    proof (cases "fst (Verify_partitions 1 (Partitions i))")
      case (Some e)
      then show ?thesis using Verify_fst_partitions[of i E] by simp
    next
      case None
      from un have "\<exists>m \<in> set (Mountpoints i). Partition m \<notin> Name ` set ?ps'"
        by (simp add: Verify_names)
      from Verify_mountpoints_fails[OF this fresh]
      obtain e where "fst (Verify_mountpoints ?ps' (Mountpoints i)) = Some e" by auto
      from Verify_fst_mountpoints[OF None this] show ?thesis by simp
    qed
    show "lifecycle E how i ctx args t = (fst (Verify E i), snd (Verify E i), ctx, t)"
      by (rule lifecycle_Verify_fails[OF f])
  }
  {
    assume a: "fst (Verify_partitions 1 (Partitions i)) = None \<and> Mountpoints i = ms1 @ m # ms2 \<and>
      (\<forall>m' \<in> set ms1. Partition m' \<in> Name ` set (Partitions i)) \<and>
      Partition m \<notin> Name ` set (Partitions i)"
    then have pm: "part m = None" using fresh by simp
    from a have "\<forall>m' \<in> set ms1. Partition m' \<in> Name ` set ?ps'" "Partition m \<notin> Name ` set ?ps'"
      by (simp_all add: Verify_names)
    from Verify_mountpoints_unmatched[OF this pm, of ms2] a
    have "fst (Verify_mountpoints ?ps' (Mountpoints i)) =
            Some (Error (''Couldn't fount partition for '' @ Mountpoint m))"
      by simp
    from Verify_fst_mountpoints[OF _ this] a
    show "fst (Verify E i) = Some (Error (''Couldn't fount partition for '' @ Mountpoint m))"
      by simp
  }
qed

theorem Verify_resolves_mountpoints_witness:
  "map part (Mountpoints (snd (Verify (demo_env (\<lambda>c. False)) demo_action))) = [Some 1, Some 0] \<and>
   (\<exists>j. Mountpoints (snd (Verify (demo_env (\<lambda>c. False)) demo_action)) ! 0 =
          (demo_mountpoint ''/'' ''root'')\<lparr>part := Some j\<rparr> \<and>
        Name (Partitions demo_action ! j) = ''root'') \<and>
   fst (Verify (demo_env (\<lambda>c. False)) dangling_action) =
     Some (Error ''Couldn't fount partition for /home'') \<and>
   lifecycle (demo_env (\<lambda>c. False)) OnHost dangling_action demo_context [] [] =
     (Some (Error ''Couldn't fount partition for /home''),
      snd (Verify (demo_env (\<lambda>c. False)) dangling_action), demo_context, [])"
proof -
  let ?E = "demo_env (\<lambda>c. False)"
  let ?root = "demo_mountpoint ''/'' ''root''" and ?home = "demo_mountpoint ''/home'' ''home''"
  have fresh1: "\<forall>m \<in> set (Mountpoints demo_action). part m = None"
    by (simp add: demo_action_def demo_mountpoint_def)
  have fresh2: "\<forall>m \<in> set (Mountpoints dangling_action). part m = None"
    by (simp add: dangling_action_def demo_mountpoint_def)
  have ok: "fst (Verify ?E demo_action) = None"
    by (simp add: demo_Verify)
  have direct: "map part (Mountpoints (snd (Verify ?E demo_action))) = [Some 1, Some 0]"
    by (simp add: demo_Verify)
  have k0: "0 < length (Mountpoints demo_action)" "Mountpoints demo_action ! 0 = ?root"
    "Partition ?root = ''root''"
    by (simp_all add: demo_action_def demo_mountpoint_def)
  from Verify_resolves_mountpoints[OF fresh1, of ?E] ok k0
  have bound0: "\<exists>j. Mountpoints (snd (Verify ?E demo_action)) ! 0 = ?root\<lparr>part := Some j\<rparr> \<and>
                    Name (Partitions demo_action ! j) = ''root''"
    by metis
  have un: "\<exists>m \<in> set (Mountpoints dangling_action).
              Partition m \<notin> Name ` set (Partitions dangling_action)"
    by (simp add: dangling_action_def demo_action_def demo_mountpoint_def demo_partition_def)
  have first: "fst (Verify_partitions 1 (Partitions dangling_action)) = None \<and>
               Mountpoints dangling_action = [?root] @ ?home # [] \<and>
               (\<forall>m' \<in> set [?root]. Partition m' \<in> Name ` set (Partitions dangling_action)) \<and>
               Partition ?home \<notin> Name ` set (Partitions dangling_action)"
    by (simp add: dangling_action_def demo_action_def demo_mountpoint_def demo_partition_def)
  note th = Verify_resolves_mountpoints[OF fresh2, of ?E OnHost demo_context "[]" "[]"
      "[?root]" ?home "[]"]
  from th first have err: "fst (Verify ?E dangling_action) =
      Some (Error (''Couldn't fount partition for '' @ Mountpoint ?home))"
    by blast
  then have err': "fst (Verify ?E dangling_action) = Some (Error ''Couldn't fount partition for /home'')"
    by (simp add: demo_mountpoint_def)
  from th un have "lifecycle ?E OnHost dangling_action demo_context [] [] =
      (fst (Verify ?E dangling_action), snd (Verify ?E dangling_action), demo_context, [])"
    by blast
  with err' have life: "lifecycle ?E OnHost dangling_action demo_context [] [] =
      (Some (Error ''Couldn't fount partition for /home''),
       snd (Verify ?E dangling_action), demo_context, [])"
    by simp
  from direct bound0 err' life show ?thesis by blast
qed


subsection \<open>Construction\<close>

text \<open>Neither \<open>PreNoMachine\<close> nor \<open>Run\<close> changes the \<open>usingLoop\<close> flag of the action
  they are called on, in any environment and whatever they return.\<close>

lemma PreNoMachine_usingLoop_unchanged:
  "usingLoop (fst (snd (PreNoMachine E i ctx t))) = usingLoop i"
  by (simp add: PreNoMachine_def value_receiver_def case_prod_beta)

lemma Run_usingLoop_unchanged:
  "usingLoop (fst (snd (Run E i ctx t))) = usingLoop i"
  by (simp add: Run_def value_receiver_def case_prod_beta)

text \<open>The outcome of the mkfs command has no influence on what \<open>formatPartition\<close>
  returns: with a non-empty backing path, the result is decided by \<open>blkid\<close> alone.\<close>

lemma formatPartition_result:
  "getPartitionDevice (number p) ctx = Inr path \<Longrightarrow>
   fst (formatPartition E p ctx t) =
     (case respond E
             (t @ [Command_Run (''Formatting partition '' @ Sprintf_d (number p))
                     ((if FS p = ''fat32'' then [''mkfs.vfat'', ''-n'', Name p]
                       else [''mkfs.'' @ FS p, ''-L'', Name p]) @ [path])])
             (Exec_Output [''blkid'', ''-o'', ''value'', ''-s'', ''UUID'', ''-p'', ''-c'', ''none'', path]) of
        Failure e \<Rightarrow> Inl (Error (''Failed to get uuid: '' @ e))
      | Success uuid \<Rightarrow> Inr (p\<lparr>FSUUID := TrimSpace E uuid\<rparr>))"
  by (simp add: formatPartition_def Let_def exec_def split: outcome.splits)

text \<open>
  C1. In a build on the host, \<open>PreNoMachine\<close> succeeds and records the loop device
  \<open>/dev/loop0\<close> as the backing device. The method sets \<open>usingLoop\<close> in its own copy of the
  action only, so the flag of the action is still unset afterwards, and \<open>Cleanup\<close> ends
  with the two unmounts: the loop device is not detached.
\<close>

theorem Cleanup_never_detaches_loop:
  "fst host_prepared = None \<and>
   image' (fst (snd (snd host_prepared))) = ''/dev/loop0'' \<and>
   usingLoop (fst (snd (PreNoMachine_body (demo_env (\<lambda>c. False)) verified_action demo_context []))) \<and>
   \<not> usingLoop (fst (snd host_prepared)) \<and>
   fst host_built = None \<and>
   host_cleaned =
     (None,
      [OpenFile ''disk.img'', Truncate ''disk.img'' 1000000000, Close ''disk.img'',
       Exec_Output [''losetup'', ''-f'', ''--show'', ''disk.img''],
       Command_Run ''parted'' [''parted'', ''-s'', ''/dev/loop0'', ''mklabel'', ''gpt''],
       Command_Run ''parted'' [''parted'', ''-a'', ''none'', ''-s'', ''/dev/loop0'', ''mkpart'',
                               ''efi'', ''fat32'', ''0%'', ''10%''],
       Command_Run ''parted'' [''parted'', ''-s'', ''/dev/loop0'', ''set'', ''1'', ''boot'', ''on''],
       Command_Run ''Formatting partition 1'' [''mkfs.vfat'', ''-n'', ''efi'', ''/dev/loop0p1''],
       Exec_Output [''blkid'', ''-o'', ''value'', ''-s'', ''UUID'', ''-p'', ''-c'', ''none'',
                    ''/dev/loop0p1''],
       Command_Run ''parted'' [''parted'', ''-a'', ''none'', ''-s'', ''/dev/loop0'', ''mkpart'',
                               ''root'', ''ext4'', ''10%'', ''100%''],
       Command_Run ''Formatting partition 2'' [''mkfs.ext4'', ''-L'', ''root'', ''/dev/loop0p2''],
       Exec_Output [''blkid'', ''-o'', ''value'', ''-s'', ''UUID'', ''-p'', ''-c'', ''none'',
                    ''/dev/loop0p2''],
       MkdirAll (demo_Join ''/scratch'' ''mnt'') 755,
       MkdirAll (demo_Join (demo_Join ''/scratch'' ''mnt'') ''/'') 755,
       Mount ''/dev/loop0p2'' (demo_Join (demo_Join ''/scratch'' ''mnt'') ''/'') ''ext4'',
       MkdirAll (demo_Join (demo_Join ''/scratch'' ''mnt'') ''/boot/efi'') 755,
       Mount ''/dev/loop0p1'' (demo_Join (demo_Join ''/scratch'' ''mnt'') ''/boot/efi'') ''vfat'',
       Unmount (demo_Join (demo_Join ''/scratch'' ''mnt'') ''/boot/efi''),
       Unmount (demo_Join (demo_Join ''/scratch'' ''mnt'') ''/'')]) \<and>
   Exec_Run [''losetup'', ''-d'', ''/dev/loop0''] \<notin> set (snd host_cleaned)"
  by code_simp

text \<open>
  C2. The first partition of the recipe is formatted on \<open>/dev/vda\<close> in an environment
  where every mkfs command fails and every other call succeeds. The failure of
  \<open>mkfs.vfat\<close> is not returned: \<open>formatPartition\<close> goes on to \<open>blkid\<close> and returns
  the partition with a UUID, and \<open>Run\<close> returns no error after it has created and
  formatted the second partition and mounted both.
\<close>

theorem formatPartition_ignores_mkfs_failure:
  "respond (demo_env is_mkfs) [] mkfs_efi = Failure ''exit status 1'' \<and>
   formatPartition (demo_env is_mkfs) (Partitions verified_action ! 0) vda_context [] =
     (Inr ((Partitions verified_action ! 0)\<lparr>FSUUID := ''ABCD-1234''\<rparr>), [mkfs_efi, blkid_efi]) \<and>
   fst (Run (demo_env is_mkfs) verified_action vda_context []) = None \<and>
   snd (snd (snd (Run (demo_env is_mkfs) verified_action vda_context []))) =
     [Command_Run ''parted'' [''parted'', ''-s'', ''/dev/vda'', ''mklabel'', ''gpt''],
      Command_Run ''parted'' [''parted'', ''-a'', ''none'', ''-s'', ''/dev/vda'', ''mkpart'',
                              ''efi'', ''fat32'', ''0%'', ''10%''],
      Command_Run ''parted'' [''parted'', ''-s'', ''/dev/vda'', ''set'', ''1'', ''boot'', ''on''],
      mkfs_efi,
      blkid_efi,
      Command_Run ''parted'' [''parted'', ''-a'', ''none'', ''-s'', ''/dev/vda'', ''mkpart'',
                              ''root'', ''ext4'', ''10%'', ''100%''],
      Command_Run ''Formatting partition 2'' [''mkfs.ext4'', ''-L'', ''root'', ''/dev/vda2''],
      Exec_Output [''blkid'', ''-o'', ''value'', ''-s'', ''UUID'', ''-p'', ''-c'', ''none'',
                   ''/dev/vda2''],
      MkdirAll (demo_Join ''/scratch'' ''mnt'') 755,
      MkdirAll (demo_Join (demo_Join ''/scratch'' ''mnt'') ''/'') 755,
      Mount ''/dev/vda2'' (demo_Join (demo_Join ''/scratch'' ''mnt'') ''/'') ''ext4'',
      MkdirAll (demo_Join (demo_Join ''/scratch'' ''mnt'') ''/boot/efi'') 755,
      Mount ''/dev/vda1'' (demo_Join (demo_Join ''/scratch'' ''mnt'') ''/boot/efi'') ''vfat'']"
  by code_simp

end
